theory Spec2Isabelle
  imports Complex_Main "HOL-Library.Word"
begin

unbundle bit_operations_syntax


section \<open>Python values\<close>

datatype py_error =
  KeyError | AssertionError | ValueError | StopIteration | MissingError | FastForwardError

text \<open>
  A JSON object is an association list, in insertion order; \<open>d.get(k)\<close> is
  \<open>map_of d k\<close>. A status is an object with the keys \<open>state\<close>, \<open>target_url\<close> and
  \<open>description\<close>; a status map sends a CI context to its status.
\<close>

type_synonym status = "(string \<times> string) list"
type_synonym statuses = "(string \<times> status) list"

text \<open>\<open>x or d\<close> for an optional string: \<open>None\<close> and the empty string are falsy.\<close>

definition str_or :: "string option \<Rightarrow> string \<Rightarrow> string" where
  "str_or x d = (case x of None \<Rightarrow> d | Some v \<Rightarrow> if v = [] then d else v)"

fun str_nat :: "nat \<Rightarrow> string" where
  "str_nat n =
    (if n < 10 then [char_of (48 + n)] else str_nat (n div 10) @ [char_of (48 + n mod 10)])"

definition str_int :: "int \<Rightarrow> string" where
  "str_int i = (if i < 0 then CHR ''-'' # str_nat (nat (- i)) else str_nat (nat i))"

section \<open>Configuration: projects, branches, repositories, required statuses\<close>

record project =
  ci_timeout :: int

record branch =
  branch_id :: nat
  branch_name :: string
  project_id :: project

text \<open>
  A required status of a repository. \<open>branch_filter\<close> is empty or a search domain over
  branches; the domain (read with \<open>ast.literal_eval\<close>, applied with \<open>filtered_domain\<close>) is
  held as the predicate it denotes.
\<close>

record status_configuration =
  ctx :: string
  branch_filter :: "(branch \<Rightarrow> bool) option"
  prs :: bool
  stagings :: bool

definition for_branch :: "status_configuration list \<Rightarrow> branch \<Rightarrow> status_configuration list" where
  "for_branch self b =
    filter (\<lambda>st. case branch_filter st of None \<Rightarrow> True | Some d \<Rightarrow> d b) self"

record repository =
  repo_id :: nat
  repo_name :: string
  status_ids :: "status_configuration list"

record commit =
  sha :: string
  commit_statuses :: statuses

text \<open>A row of \<open>runbot_merge.stagings.heads\<close> or \<open>runbot_merge.stagings.commits\<close>.\<close>

record staging_commit =
  repository_id :: repository
  commit_id :: commit

section \<open>Pull-request state machine\<close>

text \<open>
  The \<open>state\<close> selection field of \<open>runbot_merge.pull_requests\<close>.
\<close>

datatype pr_state = Opened | Closed | Validated | Approved | Ready | Merged | Error

text \<open>
  The fields of \<open>runbot_merge.batch\<close> read or written by the pull-request model.
  \<open>b_target\<close> is the id of the target branch, \<open>merge_date\<close> a datetime or \<open>False\<close>,
  \<open>blocked\<close> the computed reason why the batch cannot be staged, if any.
\<close>

record batch =
  b_id :: nat
  b_target :: nat
  merge_date :: "int option"
  skipchecks :: bool
  cancel_staging :: bool
  priority :: string
  fw_policy :: string
  blocked :: "string option"

text \<open>
  A row of \<open>runbot_merge.pull_requests\<close>. Many2one fields hold the id of the record they
  point to, or \<open>None\<close>; \<open>parent_id\<close> is the pull request this one is a forward port of,
  \<open>source_id\<close> the original of the chain of forward ports.
  \<open>overrides\<close>, \<open>statuses\<close> and \<open>statuses_full\<close> are JSON texts, held parsed. \<open>status\<close> is
  the aggregate computed by \<open>_compute_statuses\<close>.
\<close>

record pull_request =
  pr_id :: nat
  number :: nat
  repository :: repository
  target :: branch
  author :: "nat option"
  label :: string
  head :: string
  message :: string
  source_id :: "nat option"
  parent_id :: "nat option"
  batch_id :: "nat option"
  closed :: bool
  error :: bool
  draft :: bool
  squash :: bool
  merge_method :: "string option"
  reviewed_by :: "nat option"
  overrides :: statuses
  statuses :: statuses
  statuses_full :: statuses
  status :: string
  previous_failure :: statuses
  commits_map :: "(string \<times> string) list"

text \<open>Python's \<open>bool(x)\<close> of a many2one, as the integer it is in arithmetic.\<close>

definition py_bool :: "'a option \<Rightarrow> nat" where
  "py_bool x = (case x of None \<Rightarrow> 0 | Some _ \<Rightarrow> 1)"

definition states :: "pr_state list" where
  "states = [Opened, Approved, Validated, Ready]"

text \<open>
  \<open>_compute_state\<close> for one record. The first argument is the record \<open>pr.batch_id\<close>
  (\<open>None\<close> for the empty recordset, whose fields all read as \<open>False\<close>). The index into
  \<open>states\<close> is \<open>bool(pr.reviewed_by) | ((pr.status == "success") << 1)\<close>.
\<close>

definition compute_state :: "batch option \<Rightarrow> pull_request \<Rightarrow> pr_state" where
  "compute_state bt pr =
    (if (case bt of None \<Rightarrow> False | Some b \<Rightarrow> merge_date b \<noteq> None) then Merged
     else if closed pr then Closed
     else if error pr then Error
     else if (case bt of None \<Rightarrow> False | Some b \<Rightarrow> skipchecks b) then Ready
     else states ! (py_bool (reviewed_by pr) OR push_bit 1 (of_bool (status pr = ''success''))))"

section \<open>Stagings\<close>

datatype staging_state = Success | Failure | Pending | Cancelled | FF_failed

text \<open>
  A row of \<open>runbot_merge.stagings\<close>. \<open>heads\<close> and \<open>commits\<close> are the one2many rows; the
  many2many \<open>head_ids\<close> is the commits of \<open>heads\<close>. Datetimes are seconds.
\<close>

record staging =
  staging_id :: nat
  staging_target :: branch
  batch_ids :: "nat list"
  state :: staging_state
  active :: bool
  timeout_limit :: int
  reason :: "string option"
  heads :: "staging_commit list"
  commits :: "staging_commit list"
  statuses_cache :: "(string \<times> string \<times> string \<times> string) list option"

definition head_ids :: "staging \<Rightarrow> commit list" where
  "head_ids s = map commit_id (heads s)"

definition for_staging :: "status_configuration list \<Rightarrow> staging \<Rightarrow> status_configuration list" where
  "for_staging self s = filter stagings (for_branch self (staging_target s))"

text \<open>
  \<open>Stagings._compute_statuses\<close>: the cache when there is one, else one tuple
  (repository, context, state, url) for every status of every head.
\<close>

definition staging_statuses :: "staging \<Rightarrow> (string \<times> string \<times> string \<times> string) list" where
  "staging_statuses st =
    (case statuses_cache st of
       Some c \<Rightarrow> c
     | None \<Rightarrow>
         concat (map (\<lambda>h. map (\<lambda>(c, status).
             (repo_name (repository_id h), c,
              str_or (map_of status ''state'') ''pending'',
              str_or (map_of status ''target_url'') []))
           (commit_statuses (commit_id h))) (heads st)))"

text \<open>The values of a \<open>write\<close> on a staging: a key that is absent is \<open>None\<close>.\<close>

record staging_vals =
  v_active :: "bool option"
  v_state :: "staging_state option"
  v_reason :: "string option option"
  v_timeout_limit :: "int option"
  v_statuses_cache :: "(string \<times> string \<times> string \<times> string) list option"

definition no_vals :: staging_vals where
  "no_vals = \<lparr>v_active = None, v_state = None, v_reason = None, v_timeout_limit = None,
     v_statuses_cache = None\<rparr>"

text \<open>The inherited \<open>write\<close> of the ORM: every key of the values is assigned.\<close>

definition super_write :: "staging_vals \<Rightarrow> staging \<Rightarrow> staging" where
  "super_write vals s =
    s\<lparr>active := (case v_active vals of None \<Rightarrow> active s | Some a \<Rightarrow> a),
      state := (case v_state vals of None \<Rightarrow> state s | Some a \<Rightarrow> a),
      reason := (case v_reason vals of None \<Rightarrow> reason s | Some a \<Rightarrow> a),
      timeout_limit := (case v_timeout_limit vals of None \<Rightarrow> timeout_limit s | Some a \<Rightarrow> a),
      statuses_cache := (case v_statuses_cache vals of None \<Rightarrow> statuses_cache s | Some a \<Rightarrow> Some a)\<rparr>"

text \<open>
  \<open>Stagings.write\<close> on one staging: \<open>statuses_cache\<close> is dropped from the values; a
  staging that leaves \<open>pending\<close> has its statuses frozen into the cache.
\<close>

definition staging_write :: "staging_vals \<Rightarrow> staging \<Rightarrow> staging" where
  "staging_write vals0 s =
    (let vals = vals0\<lparr>v_statuses_cache := None\<rparr> in
     if v_state vals = None then super_write vals s
     else
       let previously_pending = (state s = Pending);
           s' = super_write vals s
       in if previously_pending \<and> state s' \<noteq> Pending
          then super_write (no_vals\<lparr>v_statuses_cache := Some (staging_statuses s')\<rparr>) s'
          else s')"

subsection \<open>Validation\<close>

text \<open>
  The inner loop of \<open>Stagings._validate\<close> over the states of one head's required
  contexts, on the pair (\<open>st\<close>, \<open>update_timeout_limit\<close>).
\<close>

fun validate_reqs ::
  "string option list \<Rightarrow> staging_state \<times> bool \<Rightarrow> py_error + staging_state \<times> bool" where
  "validate_reqs [] acc = Inr acc"
| "validate_reqs (v # vs) (st, upd) =
    (if st = Failure \<or> v \<in> {Some ''error'', Some ''failure''} then validate_reqs vs (Failure, upd)
     else if v = None then validate_reqs vs (Pending, upd)
     else if v = Some ''pending'' then validate_reqs vs (Pending, True)
     else if v = Some ''success'' then validate_reqs vs (st, upd)
     else Inl AssertionError)"

text \<open>\<open>statuses.get(n, {}).get('state')\<close> for every required context \<open>n\<close>.\<close>

definition req_states :: "statuses \<Rightarrow> string list \<Rightarrow> string option list" where
  "req_states sts reqs =
    map (\<lambda>n. case map_of sts n of None \<Rightarrow> None | Some e \<Rightarrow> map_of e ''state'') reqs"

text \<open>
  The outer loop, over \<open>required_statuses\<close>; \<open>cmap\<close> maps the sha of every commit of
  \<open>head_ids\<close> to its statuses, and \<open>cmap.get(head) or {}\<close> is empty for an unknown sha.
\<close>

fun validate_heads ::
  "(string \<rightharpoonup> statuses) \<Rightarrow> (string \<times> string list) list \<Rightarrow> staging_state \<times> bool
    \<Rightarrow> py_error + staging_state \<times> bool" where
  "validate_heads cmap [] acc = Inr acc"
| "validate_heads cmap ((hd_commit, reqs) # rest) acc =
    (case validate_reqs (req_states (case cmap hd_commit of None \<Rightarrow> [] | Some sts \<Rightarrow> sts) reqs) acc of
       Inl e \<Rightarrow> Inl e
     | Inr acc' \<Rightarrow> validate_heads cmap rest acc')"

definition required_statuses :: "staging \<Rightarrow> (string \<times> string list) list" where
  "required_statuses s =
    map (\<lambda>h. (sha (commit_id h), map ctx (for_staging (status_ids (repository_id h)) s))) (heads s)"

definition cmap_of :: "staging \<Rightarrow> string \<rightharpoonup> statuses" where
  "cmap_of s = map_of (rev (map (\<lambda>c. (sha c, commit_statuses c)) (head_ids s)))"

text \<open>
  \<open>Stagings._validate\<close> for one staging of the recordset, at the time \<open>now\<close>. A staging
  that is not pending is skipped.
\<close>

definition validate :: "int \<Rightarrow> staging \<Rightarrow> py_error + staging" where
  "validate now s =
    (if state s \<noteq> Pending then Inr s
     else case validate_heads (cmap_of s) (required_statuses s) (Success, False) of
       Inl e \<Rightarrow> Inl e
     | Inr (st, update_timeout_limit) \<Rightarrow>
         Inr (staging_write (no_vals\<lparr>v_state := Some st,
                v_timeout_limit :=
                  (if update_timeout_limit
                   then Some (now + 60 * ci_timeout (project_id (staging_target s)))
                   else None)\<rparr>) s))"



subsection \<open>Cancelling\<close>

text \<open>
  \<open>Stagings.cancel\<close> on a recordset, with \<open>reason % args\<close> already formatted: the
  active stagings of the recordset are written, the others are left alone; the result is
  the recordset after the call and the value returned.
\<close>

definition cancel :: "string \<Rightarrow> staging list \<Rightarrow> staging list \<times> bool" where
  "cancel reason_text self =
    (if filter active self = [] then (self, False)
     else (map (\<lambda>s. if active s
                  then staging_write (no_vals\<lparr>v_active := Some False, v_state := Some Cancelled,
                                v_reason := Some (Some reason_text)\<rparr>) s
                  else s) self, True))"


subsection \<open>Failure and splitting\<close>

record split =
  split_target :: nat
  split_batch_ids :: "nat list"

text \<open>
  A row of the feedback queue. A message is a text, a JSON object, or a feedback template
  (a record of data, named by its external id) with its arguments.
\<close>

datatype message = Text string | Json "(string \<times> string) list" | Template string "string list"

record feedback =
  fb_repository :: nat
  fb_pull_request :: nat
  fb_message :: "message option"
  fb_close :: bool

record tagging =
  tg_repository :: nat
  tg_pull_request :: nat
  tags_add :: "string list"

text \<open>
  A row of \<open>res.partner\<close>: its review rights are its rows of \<open>res.partner.review\<close>
  (repository, \<open>review\<close>, \<open>self_review\<close>), \<open>delegate_reviewer\<close> the pull requests it may
  review by delegation, its override rights the pairs (repository or none, context).
\<close>

record partner =
  partner_id :: nat
  github_login :: string
  email :: "string option"
  review_rights :: "(nat \<times> bool \<times> bool) list"
  delegate_reviewer :: "nat list"
  override_rights :: "(nat option \<times> string) list"

text \<open>A row of \<open>runbot_merge.commit\<close>, in the table of commits.\<close>

record commit_row =
  cr_sha :: string
  cr_statuses :: statuses
  to_check :: bool

text \<open>
  The database of a transaction: the tables of pull requests, batches, stagings, splits,
  partners and commits, the queues of fetch jobs, feedback and tags, the \<open>change-message\<close>
  and \<open>change-author\<close> entries of the precommit data, and the batches whose deletion is
  registered for the commit.
\<close>

record env =
  pull_requests :: "pull_request list"
  batches :: "batch list"
  stagings :: "staging list"
  splits :: "split list"
  partners :: "partner list"
  commit_rows :: "commit_row list"
  fetch_jobs :: "(nat \<times> nat) list"
  feedback_queue :: "feedback list"
  tagging_queue :: "tagging list"
  change_message :: "string option"
  change_author :: "nat option"
  precommit_unlink :: "nat list"

text \<open>\<open>self.batch_ids.prs\<close>: the pull requests whose batch is one of the staging's.\<close>

definition batch_prs :: "env \<Rightarrow> nat list \<Rightarrow> pull_request list" where
  "batch_prs e bs =
    filter (\<lambda>p. case batch_id p of None \<Rightarrow> False | Some b \<Rightarrow> b \<in> set bs) (pull_requests e)"

text \<open>\<open>Stagings.fail\<close>; the empty list stands for \<open>prs=None\<close>.\<close>

definition fail :: "string \<Rightarrow> pull_request list \<Rightarrow> env \<Rightarrow> staging \<Rightarrow> env \<times> staging" where
  "fail msg prs0 e s =
    (let prs = (if prs0 = [] then batch_prs e (batch_ids s) else prs0);
         ids = map pr_id prs
     in (e\<lparr>change_message := Some (''staging '' @ str_nat (staging_id s) @ '' failed: '' @ msg),
           pull_requests :=
             map (\<lambda>p. if pr_id p \<in> set ids then p\<lparr>error := True\<rparr> else p) (pull_requests e),
           feedback_queue := feedback_queue e @
             map (\<lambda>pr. \<lparr>fb_repository = repo_id (repository pr), fb_pull_request = number pr,
                        fb_message = Some (Template ''runbot_merge.pr.staging.fail''
                                             [str_nat (number pr), msg]),
                        fb_close = False\<rparr>) prs\<rparr>,
         staging_write (no_vals\<lparr>v_active := Some False, v_state := Some Failure,
                          v_reason := Some (Some msg)\<rparr>) s))"

text \<open>
  The scan of \<open>try_splitting\<close> for the head to blame: the first required context of the
  head's statuses, in their order, that is in error or failure.
\<close>

definition failed_context :: "staging \<Rightarrow> staging_commit \<Rightarrow> string option" where
  "failed_context s hd_commit =
    (let required = set (map ctx (for_staging (status_ids (repository_id hd_commit)) s)) in
     case filter (\<lambda>(c, result). c \<in> required \<and>
                    map_of result ''state'' \<in> {Some ''error'', Some ''failure''})
            (commit_statuses (commit_id hd_commit)) of
       [] \<Rightarrow> None
     | (c, _) # _ \<Rightarrow> Some c)"

fun blame_heads :: "env \<Rightarrow> staging \<Rightarrow> staging_commit list \<Rightarrow> env \<times> staging" where
  "blame_heads e s [] = fail ''unknown reason'' [] e s"
| "blame_heads e s (hd_commit # rest) =
    (case failed_context s hd_commit of
       None \<Rightarrow> blame_heads e s rest
     | Some r \<Rightarrow>
         if r = [] then blame_heads e s rest
         else
           let st = (case map_of (commit_statuses (commit_id hd_commit)) r of None \<Rightarrow> [] | Some x \<Rightarrow> x);
               viewmore = (case map_of st ''target_url'' of
                             None \<Rightarrow> []
                           | Some u \<Rightarrow> if u = [] then [] else '' (view more at '' @ u @ '')'')
           in case filter (\<lambda>pr. repo_id (repository pr) = repo_id (repository_id hd_commit))
                     (batch_prs e (batch_ids s)) of
                pr # _ \<Rightarrow> fail (r @ viewmore) [pr] e s
              | [] \<Rightarrow> fail (r @ '' on '' @ sha (commit_id hd_commit) @ viewmore) [] e s)"

text \<open>\<open>Stagings.try_splitting\<close>: the database and the staging after the call, and its result.\<close>

definition try_splitting :: "env \<Rightarrow> staging \<Rightarrow> env \<times> staging \<times> bool" where
  "try_splitting e s =
    (let batches = length (batch_ids s) in
     if batches > 1 then
       let midpoint = batches div 2;
           h = take midpoint (batch_ids s);
           t = drop midpoint (batch_ids s);
           sh = \<lparr>split_target = branch_id (staging_target s), split_batch_ids = h\<rparr>;
           st = \<lparr>split_target = branch_id (staging_target s), split_batch_ids = t\<rparr>
       in (e\<lparr>splits := splits e @ [sh, st]\<rparr>,
           staging_write (no_vals\<lparr>v_active := Some False, v_state := Some Failure,
             v_reason := Some (if state s = Failure then reason s else Some ''timed out'')\<rparr>) s,
           True)
     else if state s \<noteq> Failure then
       (let (e', s') = fail (''timed out (>'' @ str_int (ci_timeout (project_id (staging_target s)))
                              @ '' minutes)'') [] e s
        in (e', s', False))
     else (let (e', s') = blame_heads e s (heads s) in (e', s', False)))"


section \<open>The fast-forward protocol\<close>

text \<open>
  Modelled from the spec: the remote repository client (\<open>github.GH\<close>), of which the spec
  gives \<open>remote.head(branch) -> commit_id\<close>, \<open>remote.set_ref(branch, commit_id)\<close> and
  \<open>remote.fast_forward(branch, commit_id) -> ok | FastForwardError\<close>. The remote state
  is the refs of every repository, by repository name and branch name. Whether a
  fast-forward succeeds is not decided by this program (the branch may have diverged, the
  network may fail): the outcome of the n-th call of \<open>fast_forward\<close> is taken from an oracle
  \<open>ok n\<close>, and every theorem holds for all oracles. The state also counts the calls of
  \<open>fast_forward\<close> and keeps the pauses slept by \<open>time.sleep\<close>.
\<close>

record world =
  refs :: "string \<Rightarrow> string \<Rightarrow> string"
  ff_calls :: nat
  slept :: "rat list"

definition remote_head :: "world \<Rightarrow> string \<Rightarrow> string \<Rightarrow> string" where
  "remote_head w repo b = refs w repo b"

definition set_ref :: "string \<Rightarrow> string \<Rightarrow> string \<Rightarrow> world \<Rightarrow> world" where
  "set_ref repo b c w = w\<lparr>refs := (refs w)(repo := (refs w repo)(b := c))\<rparr>"

definition fast_forward ::
  "(nat \<Rightarrow> bool) \<Rightarrow> string \<Rightarrow> string \<Rightarrow> string \<Rightarrow> world \<Rightarrow> world \<times> py_error option" where
  "fast_forward ok repo b c w =
    (if ok (ff_calls w)
     then (set_ref repo b c (w\<lparr>ff_calls := Suc (ff_calls w)\<rparr>), None)
     else (w\<lparr>ff_calls := Suc (ff_calls w)\<rparr>, Some FastForwardError))"

definition sleep :: "rat \<Rightarrow> world \<Rightarrow> world" where
  "sleep pause w = w\<lparr>slept := slept w @ [pause]\<rparr>"

text \<open>
  \<open>staging_commits.mapped('repository_id.name')\<close>: the names of the repositories, each
  once, in the order of their first commit.
\<close>

definition mapped_repository_names :: "staging_commit list \<Rightarrow> string list" where
  "mapped_repository_names cs = rev (remdups (rev (map (\<lambda>c. repo_name (repository_id c)) cs)))"

text \<open>The first loop of \<open>_safety_dance\<close>: every temporary ref is forced to the target's head.\<close>

definition reset_tmp :: "string \<Rightarrow> string \<Rightarrow> string list \<Rightarrow> world \<Rightarrow> world" where
  "reset_tmp tmp_target target_name names w =
    fold (\<lambda>repo w. set_ref repo tmp_target (remote_head w repo target_name) w) names w"

text \<open>The second loop, the dry run: an exception of \<open>fast_forward\<close> leaves the loop.\<close>

fun ff_tmp ::
  "(nat \<Rightarrow> bool) \<Rightarrow> string \<Rightarrow> staging_commit list \<Rightarrow> world \<Rightarrow> world \<times> py_error option" where
  "ff_tmp ok tmp_target [] w = (w, None)"
| "ff_tmp ok tmp_target (c # cs) w =
    (case fast_forward ok (repo_name (repository_id c)) tmp_target (sha (commit_id c)) w of
       (w', Some e) \<Rightarrow> (w', Some e)
     | (w', None) \<Rightarrow> ff_tmp ok tmp_target cs w')"

definition pauses :: "rat list" where
  "pauses = [1 / 10, 3 / 10, 5 / 10, 9 / 10, 0]"

text \<open>
  The loop over the pauses, for the commit of index \<open>i\<close>: a success leaves the loop; a
  failure is retried after the pause when \<open>i\<close> and the pause are both non-zero, and raised
  otherwise. A list of pauses that runs out ends the loop without an exception.
\<close>

fun retry_ff ::
  "(nat \<Rightarrow> bool) \<Rightarrow> nat \<Rightarrow> string \<Rightarrow> string \<Rightarrow> string \<Rightarrow> rat list \<Rightarrow> world
    \<Rightarrow> world \<times> py_error option" where
  "retry_ff ok i repo b c [] w = (w, None)"
| "retry_ff ok i repo b c (pause # rest) w =
    (case fast_forward ok repo b c w of
       (w', None) \<Rightarrow> (w', None)
     | (w', Some e) \<Rightarrow>
         if i \<noteq> 0 \<and> pause \<noteq> 0 then retry_ff ok i repo b c rest (sleep pause w')
         else (w', Some e))"

text \<open>The third loop, over \<open>enumerate(staging_commits)\<close> from the index \<open>i\<close>.\<close>

fun ff_real ::
  "(nat \<Rightarrow> bool) \<Rightarrow> string \<Rightarrow> nat \<Rightarrow> staging_commit list \<Rightarrow> world \<Rightarrow> world \<times> py_error option" where
  "ff_real ok target_name i [] w = (w, None)"
| "ff_real ok target_name i (c # cs) w =
    (case retry_ff ok i (repo_name (repository_id c)) target_name (sha (commit_id c)) pauses w of
       (w', Some e) \<Rightarrow> (w', Some e)
     | (w', None) \<Rightarrow> ff_real ok target_name (Suc i) cs w')"

definition safety_dance ::
  "(nat \<Rightarrow> bool) \<Rightarrow> staging \<Rightarrow> staging_commit list \<Rightarrow> world \<Rightarrow> world \<times> py_error option" where
  "safety_dance ok self staging_commits w =
    (let tmp_target = ''tmp.'' @ branch_name (staging_target self);
         w1 = reset_tmp tmp_target (branch_name (staging_target self))
                (mapped_repository_names staging_commits) w
     in case ff_tmp ok tmp_target staging_commits w1 of
          (w2, Some e) \<Rightarrow> (w2, Some e)
        | (w2, None) \<Rightarrow> ff_real ok (branch_name (staging_target self)) 0 staging_commits w2)"


subsection \<open>Checking the status of a staging\<close>

text \<open>The text of an exception: the remote's message is taken to be the exception's name.\<close>

fun str_error :: "py_error \<Rightarrow> string" where
  "str_error KeyError = ''KeyError''"
| "str_error AssertionError = ''AssertionError''"
| "str_error ValueError = ''ValueError''"
| "str_error StopIteration = ''StopIteration''"
| "str_error MissingError = ''MissingError''"
| "str_error FastForwardError = ''FastForwardError''"

definition is_timed_out :: "int \<Rightarrow> staging \<Rightarrow> bool" where
  "is_timed_out now self = (timeout_limit self < now)"

text \<open>
  The loop of \<open>check_status\<close> over the merged pull requests: each gets a closing feedback
  with the commit \<open>json.loads(pr.commits_map)['']\<close>, and the tag of the pseudo-branch when
  there is one.
\<close>

fun notify_merged :: "string option \<Rightarrow> pull_request list \<Rightarrow> env \<Rightarrow> env \<times> py_error option" where
  "notify_merged pseudobranch [] e = (e, None)"
| "notify_merged pseudobranch (pr # rest) e =
    (case map_of (commits_map pr) [] of
       None \<Rightarrow> (e, Some KeyError)
     | Some c \<Rightarrow>
         let e1 = e\<lparr>feedback_queue := feedback_queue e @
                     [\<lparr>fb_repository = repo_id (repository pr), fb_pull_request = number pr,
                       fb_message = Some (Json [(''sha'', c)]), fb_close = True\<rparr>]\<rparr>;
             e2 = (case pseudobranch of
                     None \<Rightarrow> e1
                   | Some t \<Rightarrow> e1\<lparr>tagging_queue := tagging_queue e1 @
                       [\<lparr>tg_repository = repo_id (repository pr), tg_pull_request = number pr,
                         tags_add = [t]\<rparr>]\<rparr>)
         in notify_merged pseudobranch rest e2)"

text \<open>
  \<open>Stagings.check_status\<close> at the time \<open>now\<close>. \<open>pseudobranch\<close> is the tag of the next
  freeze when the target is the first branch of its project, else \<open>None\<close>. The result is the
  database, the remote and the staging after the call, and the exception that leaves the
  call, if any; \<open>FastForwardError\<close> is caught, and the \<open>finally\<close> clause deactivates the
  staging on every path through the \<open>try\<close>.
\<close>

definition check_status ::
  "(nat \<Rightarrow> bool) \<Rightarrow> int \<Rightarrow> string option \<Rightarrow> env \<Rightarrow> world \<Rightarrow> staging
    \<Rightarrow> env \<times> world \<times> staging \<times> py_error option" where
  "check_status ok now pseudobranch e w self =
    (if \<not> active self then (e, w, self, None)
     else if state self = Success then
       (case safety_dance ok self (commits self) w of
          (w', Some err) \<Rightarrow>
            if err = FastForwardError then
              (e, w',
               staging_write (no_vals\<lparr>v_active := Some False\<rparr>)
                 (staging_write (no_vals\<lparr>v_state := Some FF_failed,
                                   v_reason := Some (Some (str_error err))\<rparr>) self),
               None)
            else (e, w', staging_write (no_vals\<lparr>v_active := Some False\<rparr>) self, Some err)
        | (w', None) \<Rightarrow>
            let prs = batch_prs e (batch_ids self);
                e1 = e\<lparr>change_message :=
                         Some (''staging '' @ str_nat (staging_id self) @ '' succeeded''),
                       batches := map (\<lambda>b. if b_id b \<in> set (batch_ids self)
                                            then b\<lparr>merge_date := Some now\<rparr> else b) (batches e)\<rparr>;
                (e2, err) = notify_merged pseudobranch prs e1
            in (e2, w', staging_write (no_vals\<lparr>v_active := Some False\<rparr>) self, err))
     else if state self = Failure \<or> is_timed_out now self then
       (let (e', s', r) = try_splitting e self in (e', w, s', None))
     else (e, w, self, None))"


section \<open>Pull-request status aggregation\<close>

text \<open>The pull-request table, and the record with a given id (the empty recordset is \<open>None\<close>).\<close>

definition browse :: "pull_request list \<Rightarrow> nat \<Rightarrow> pull_request option" where
  "browse db i = find (\<lambda>r. pr_id r = i) db"

text \<open>\<open>self.parent_id\<close>, as a recordset.\<close>

definition parent_of :: "pull_request list \<Rightarrow> pull_request \<Rightarrow> pull_request option" where
  "parent_of db p = (case parent_id p of None \<Rightarrow> None | Some i \<Rightarrow> browse db i)"

text \<open>
  \<open>a | b\<close> and \<open>{**a, **b}\<close> on dictionaries: the keys of \<open>a\<close> keep their place and take
  the value \<open>b\<close> gives them, the other keys of \<open>b\<close> follow.
\<close>

definition dict_union :: "('k \<times> 'v) list \<Rightarrow> ('k \<times> 'v) list \<Rightarrow> ('k \<times> 'v) list" where
  "dict_union a b =
    map (\<lambda>(k, v). (k, case map_of b k of None \<Rightarrow> v | Some v' \<Rightarrow> v')) a
    @ filter (\<lambda>(k, v). map_of a k = None) b"

text \<open>
  \<open>_get_overrides\<close>. The recursion follows the \<open>parent_id\<close> links and ends where they end;
  on links that run in a circle it does not return, which is the value \<open>None\<close>.
\<close>

partial_function (option) get_overrides ::
  "pull_request list \<Rightarrow> pull_request option \<Rightarrow> statuses option" where
  "get_overrides db self =
    (case self of
       None \<Rightarrow> Some []
     | Some p \<Rightarrow>
         (case parent_of db p of
            Some q \<Rightarrow> Option.bind (get_overrides db (Some q))
                        (\<lambda>inherited. Some (dict_union inherited (overrides p)))
          | None \<Rightarrow> Some (overrides p)))"

text \<open>\<open>_iter_ancestors\<close>: the records yielded, in order.\<close>

partial_function (option) iter_ancestors ::
  "pull_request list \<Rightarrow> pull_request option \<Rightarrow> pull_request list option" where
  "iter_ancestors db self =
    (case self of
       None \<Rightarrow> Some []
     | Some p \<Rightarrow> Option.bind (iter_ancestors db (parent_of db p)) (\<lambda>rest. Some (p # rest)))"

definition for_pr :: "status_configuration list \<Rightarrow> pull_request \<Rightarrow> status_configuration list" where
  "for_pr self pr = filter prs (for_branch self (target pr))"

text \<open>
  \<open>(statuses.get(ci.context) or {'state': 'pending'})['state']\<close>: a context with no
  status, or with an empty one, reads as pending; a status with no \<open>state\<close> key raises.
\<close>

definition context_state :: "statuses \<Rightarrow> string \<Rightarrow> py_error + string" where
  "context_state sts c =
    (case map_of sts c of
       None \<Rightarrow> Inr ''pending''
     | Some e \<Rightarrow>
         if e = [] then Inr ''pending''
         else (case map_of e ''state'' of None \<Rightarrow> Inl KeyError | Some v \<Rightarrow> Inr v))"

text \<open>The loop of \<open>_compute_statuses\<close> over the required contexts, on \<open>st\<close>.\<close>

fun aggregate :: "statuses \<Rightarrow> string list \<Rightarrow> string \<Rightarrow> py_error + string" where
  "aggregate sts [] st = Inr st"
| "aggregate sts (c # cs) st =
    (case context_state sts c of
       Inl e \<Rightarrow> Inl e
     | Inr v \<Rightarrow>
         if v \<in> {''error'', ''failure''} then Inr ''failure''
         else if v = ''pending'' then aggregate sts cs ''pending''
         else aggregate sts cs st)"

text \<open>\<open>_compute_statuses\<close> for one pull request of the table.\<close>

definition compute_statuses ::
  "pull_request list \<Rightarrow> pull_request \<Rightarrow> (py_error + pull_request) option" where
  "compute_statuses db pr =
    (case get_overrides db (Some pr) of
       None \<Rightarrow> None
     | Some ov \<Rightarrow>
         let full = dict_union (statuses pr) ov in
         Some (case aggregate full (map ctx (for_pr (status_ids (repository pr)) pr)) ''success'' of
                 Inl e \<Rightarrow> Inl e
               | Inr st \<Rightarrow> Inr (pr\<lparr>statuses_full := full, status := st\<rparr>)))"

subsection \<open>The aggregation, in the words of the specification\<close>






section \<open>Writes on a pull request\<close>

definition display_name :: "pull_request \<Rightarrow> string" where
  "display_name pr = repo_name (repository pr) @ ''#'' @ str_nat (number pr)"

text \<open>\<open>pr.batch_id\<close>, as a recordset.\<close>

definition batch_of :: "env \<Rightarrow> pull_request \<Rightarrow> batch option" where
  "batch_of e pr =
    (case batch_id pr of None \<Rightarrow> None | Some b \<Rightarrow> find (\<lambda>x. b_id x = b) (batches e))"

text \<open>\<open>pr.state\<close>: the stored state is recomputed from its dependencies when it is read.\<close>

definition state_of :: "env \<Rightarrow> pull_request \<Rightarrow> pr_state" where
  "state_of e pr = compute_state (batch_of e pr) pr"

definition update_pr :: "nat \<Rightarrow> (pull_request \<Rightarrow> pull_request) \<Rightarrow> env \<Rightarrow> env" where
  "update_pr i f e =
    e\<lparr>pull_requests := map (\<lambda>p. if pr_id p = i then f p else p) (pull_requests e)\<rparr>"

text \<open>An assignment on \<open>pr.batch_id\<close>; on the empty recordset it does nothing.\<close>

definition update_batch :: "nat option \<Rightarrow> (batch \<Rightarrow> batch) \<Rightarrow> env \<Rightarrow> env" where
  "update_batch b f e =
    (case b of
       None \<Rightarrow> e
     | Some i \<Rightarrow> e\<lparr>batches := map (\<lambda>x. if b_id x = i then f x else x) (batches e)\<rparr>)"

text \<open>\<open>FeedbackTemplate._send\<close>: the rendered template joins the feedback queue.\<close>

definition send :: "string \<Rightarrow> pull_request \<Rightarrow> string list \<Rightarrow> env \<Rightarrow> env" where
  "send template pr args e =
    e\<lparr>feedback_queue := feedback_queue e @
        [\<lparr>fb_repository = repo_id (repository pr), fb_pull_request = number pr,
          fb_message = Some (Template template args), fb_close = False\<rparr>]\<rparr>"

text \<open>\<open>Stagings.cancel\<close> on the stagings of the table that satisfy \<open>P\<close>.\<close>

definition cancel_in :: "(staging \<Rightarrow> bool) \<Rightarrow> string \<Rightarrow> env \<Rightarrow> env" where
  "cancel_in P reason_text e =
    e\<lparr>stagings := concat (map (\<lambda>s. if P s then fst (cancel reason_text [s]) else [s]) (stagings e))\<rparr>"

text \<open>
  \<open>PullRequests.unstage\<close>, with the reason already formatted: a split that holds only the
  batch of the pull request is deleted, another split loses the batch; then the stagings of
  the batch (\<open>pr.staging_id\<close> is the active one) are cancelled.
\<close>

definition unstage :: "string \<Rightarrow> pull_request \<Rightarrow> env \<Rightarrow> env" where
  "unstage reason_text self e =
    (let e1 = (case batch_id self of
                 None \<Rightarrow> e
               | Some b \<Rightarrow>
                   e\<lparr>splits := concat (map (\<lambda>sp.
                       if b \<in> set (split_batch_ids sp)
                       then (if length (split_batch_ids sp) = 1 then []
                             else [sp\<lparr>split_batch_ids := removeAll b (split_batch_ids sp)\<rparr>])
                       else [sp]) (splits e))\<rparr>)
     in cancel_in (\<lambda>s. case batch_id self of None \<Rightarrow> False | Some b \<Rightarrow> b \<in> set (batch_ids s))
          (display_name self @ '' '' @ reason_text) e1)"

text \<open>
  \<open>re.search(r':patch-\d+$', label)\<close>: the label ends with \<open>:patch-\<close> and at least one
  digit.
\<close>

definition no_grouping :: "string \<Rightarrow> bool" where
  "no_grouping lbl =
    (let ds = takeWhile (\<lambda>c. c \<in> set ''0123456789'') (rev lbl)
     in ds \<noteq> [] \<and> take 7 (drop (length ds) (rev lbl)) = rev '':patch-'')"

text \<open>
  \<open>_get_batch\<close>: the unmerged batches of the target that hold a pull request of the label,
  unless the label asks for no grouping; a new batch (with the fields' defaults) when there is
  none. The result is the database and the ids of the recordset.
\<close>

definition get_batch :: "nat \<Rightarrow> string \<Rightarrow> env \<Rightarrow> env \<times> nat list" where
  "get_batch tgt lbl e =
    (let found =
           (if no_grouping lbl then []
            else filter (\<lambda>b. merge_date b = None \<and> b_target b = tgt
                   \<and> list_ex (\<lambda>p. batch_id p = Some (b_id b) \<and> label p = lbl) (pull_requests e))
                   (batches e))
     in if found \<noteq> [] then (e, map b_id found)
        else
          let i = Suc (fold max (map b_id (batches e)) 0) in
          (e\<lparr>batches := batches e @
               [\<lparr>b_id = i, b_target = tgt, merge_date = None, skipchecks = False,
                 cancel_staging = False, priority = ''default'', fw_policy = ''default'',
                 blocked = None\<rparr>]\<rparr>, [i]))"

subsection \<open>Validation of a pull request\<close>

definition statuses_equivalent :: "status \<Rightarrow> status \<Rightarrow> bool" where
  "statuses_equivalent a b =
    (map_of a ''state'' = map_of b ''state'' \<and> map_of a ''target_url'' = map_of b ''target_url'')"

text \<open>\<open>_notify_ci_new_failure\<close>, with \<open>_notify_ci_failed\<close>, on the pull request of id \<open>i\<close>.\<close>

definition notify_ci_new_failure :: "nat \<Rightarrow> string \<Rightarrow> status \<Rightarrow> env \<Rightarrow> env" where
  "notify_ci_new_failure i ci st e =
    (case browse (pull_requests e) i of
       None \<Rightarrow> e
     | Some self \<Rightarrow>
         if list_ex (\<lambda>(c, v). statuses_equivalent st v) (previous_failure self) then e
         else
           let e1 = update_pr i (\<lambda>p. p\<lparr>previous_failure :=
                      dict_union (previous_failure p) [(ci, st)]\<rparr>) e
           in if state_of e1 self = Approved
              then send ''runbot_merge.failure.approved'' self [display_name self, ci] e1
              else e1)"

text \<open>The loop of \<open>PullRequests._validate\<close> over the required contexts of a failed pull request.\<close>

fun notify_failures :: "nat \<Rightarrow> statuses \<Rightarrow> string list \<Rightarrow> env \<Rightarrow> py_error + env" where
  "notify_failures i full [] e = Inr e"
| "notify_failures i full (ci # rest) e =
    (let st = (case map_of full ci of
                 None \<Rightarrow> [(''state'', ''pending'')]
               | Some x \<Rightarrow> if x = [] then [(''state'', ''pending'')] else x)
     in case map_of st ''state'' of
          None \<Rightarrow> Inl KeyError
        | Some v \<Rightarrow>
            if v \<in> {''error'', ''failure''}
            then notify_failures i full rest (notify_ci_new_failure i ci st e)
            else notify_failures i full rest e)"

text \<open>
  \<open>PullRequests._validate\<close> on the pull request of id \<open>i\<close>: unless it is merged, it gets
  the statuses, its status is recomputed, and a failure is notified.
\<close>

definition pr_validate :: "statuses \<Rightarrow> nat \<Rightarrow> env \<Rightarrow> (py_error + env) option" where
  "pr_validate sts i e =
    (case browse (pull_requests e) i of
       None \<Rightarrow> Some (Inr e)
     | Some self \<Rightarrow>
         if state_of e self = Merged then Some (Inr e)
         else
           let e1 = update_pr i (\<lambda>p. p\<lparr>statuses := sts\<rparr>) e in
           (case compute_statuses (pull_requests e1) (self\<lparr>statuses := sts\<rparr>) of
              None \<Rightarrow> None
            | Some (Inl err) \<Rightarrow> Some (Inl err)
            | Some (Inr pr) \<Rightarrow>
                let e2 = update_pr i
                      (\<lambda>p. p\<lparr>statuses_full := statuses_full pr, status := status pr\<rparr>) e1
                in if status pr = ''failure''
                   then Some (notify_failures i (statuses_full pr)
                                (map ctx (for_pr (status_ids (repository pr)) pr)) e2)
                   else Some (Inr e2)))"

subsection \<open>The write\<close>

text \<open>The values of a \<open>write\<close> on a pull request: a key that is absent is \<open>None\<close>.\<close>

record pr_vals =
  w_squash :: "bool option"
  w_merge_method :: "string option option"
  w_state :: "pr_state option"
  w_reviewed_by :: "nat option option"
  w_target :: "branch option"
  w_label :: "string option"
  w_message :: "string option"
  w_closed :: "bool option"
  w_batch_id :: "nat option option"
  w_head :: "string option"
  w_draft :: "bool option"
  w_error :: "bool option"

text \<open>The inherited \<open>write\<close> of the ORM on one row: every key of the values is assigned.\<close>

definition assign :: "pr_vals \<Rightarrow> pull_request \<Rightarrow> pull_request" where
  "assign vals p =
    p\<lparr>squash := (case w_squash vals of None \<Rightarrow> squash p | Some x \<Rightarrow> x),
      merge_method := (case w_merge_method vals of None \<Rightarrow> merge_method p | Some x \<Rightarrow> x),
      reviewed_by := (case w_reviewed_by vals of None \<Rightarrow> reviewed_by p | Some x \<Rightarrow> x),
      target := (case w_target vals of None \<Rightarrow> target p | Some x \<Rightarrow> x),
      label := (case w_label vals of None \<Rightarrow> label p | Some x \<Rightarrow> x),
      message := (case w_message vals of None \<Rightarrow> message p | Some x \<Rightarrow> x),
      closed := (case w_closed vals of None \<Rightarrow> closed p | Some x \<Rightarrow> x),
      batch_id := (case w_batch_id vals of None \<Rightarrow> batch_id p | Some x \<Rightarrow> x),
      head := (case w_head vals of None \<Rightarrow> head p | Some x \<Rightarrow> x),
      draft := (case w_draft vals of None \<Rightarrow> draft p | Some x \<Rightarrow> x),
      error := (case w_error vals of None \<Rightarrow> error p | Some x \<Rightarrow> x)\<rparr>"

text \<open>\<open>repr\<close> of a string without quotes or escapes.\<close>

definition py_repr :: "string \<Rightarrow> string" where
  "py_repr x = [CHR 0x27] @ x @ [CHR 0x27]"

text \<open>
  The \<open>match vals.get('closed')\<close> of \<open>write\<close>: the values and the database after it, or the
  \<open>ValueError\<close> of a many2one given several batches.
\<close>

definition write_closed :: "pr_vals \<Rightarrow> pull_request \<Rightarrow> env \<Rightarrow> py_error + pr_vals \<times> env" where
  "write_closed vals self e =
    (let tgt = (case w_target vals of
                  None \<Rightarrow> branch_id (target self)
                | Some t \<Rightarrow> if branch_id t = 0 then branch_id (target self) else branch_id t);
         lbl = (case w_label vals of None \<Rightarrow> label self | Some l \<Rightarrow> if l = [] then label self else l);
         unlink = (\<lambda>e'. case batch_id self of
                     None \<Rightarrow> e'
                   | Some b \<Rightarrow>
                       if length (batch_prs e [b]) = 1
                       then e'\<lparr>precommit_unlink := precommit_unlink e' @ [b]\<rparr> else e');
         rejoin = (\<lambda>after. case get_batch tgt lbl e of
                     (e', [b]) \<Rightarrow> Inr (vals\<lparr>w_batch_id := Some (Some b)\<rparr>, after e')
                   | (e', []) \<Rightarrow> Inr (vals\<lparr>w_batch_id := Some None\<rparr>, after e')
                   | (e', _ # _ # _) \<Rightarrow> Inl ValueError)
     in case w_closed vals of
          Some True \<Rightarrow>
            if \<not> closed self
            then Inr (vals\<lparr>w_reviewed_by := Some None, w_batch_id := Some None\<rparr>, unlink e)
            else Inr (vals, e)
        | Some False \<Rightarrow> if closed self then rejoin (\<lambda>e. e) else Inr (vals, e)
        | None \<Rightarrow>
            (case w_target vals of
               None \<Rightarrow> Inr (vals, e)
             | Some t \<Rightarrow>
                 if branch_id t \<noteq> 0 \<and> branch_id t \<noteq> branch_id (target self) then rejoin unlink
                 else Inr (vals, e)))"

text \<open>
  \<open>PullRequests.write\<close> on one pull request \<open>self\<close> of the table, by the user whose
  partner is \<open>uid\<close>.
\<close>

definition pr_write :: "nat \<Rightarrow> pr_vals \<Rightarrow> pull_request \<Rightarrow> env \<Rightarrow> (py_error + env) option" where
  "pr_write uid vals0 self e0 =
    (let vals1 = (if w_squash vals0 = Some True then vals0\<lparr>w_merge_method := Some None\<rparr> else vals0);
         vals2 = (if w_state vals1 = Some Ready \<and> w_reviewed_by vals1 = None
                  then vals1\<lparr>w_reviewed_by := Some (Some uid)\<rparr> else vals1);
         e1 = (if w_state vals1 = Some Ready
               then (update_batch (batch_id self) (\<lambda>b. b\<lparr>skipchecks := True\<rparr>) e0)
                      \<lparr>pull_requests := map (\<lambda>p.
                          if batch_id self \<noteq> None \<and> batch_id p = batch_id self
                             \<and> pr_id p \<noteq> pr_id self \<and> reviewed_by p = None
                          then p\<lparr>reviewed_by := Some uid\<rparr> else p) (pull_requests e0)\<rparr>
               else e0);
         e2 = (case w_target vals2 of
                 None \<Rightarrow> e1
               | Some t \<Rightarrow>
                   if branch_id (target self) \<noteq> branch_id t
                   then unstage (''target (base) branch was changed from ''
                          @ py_repr (branch_name (target self)) @ '' to '' @ py_repr (branch_name t))
                          self e1
                   else e1);
         e3 = (case w_message vals2 of
                 None \<Rightarrow> e2
               | Some m \<Rightarrow>
                   let mm = (case w_merge_method vals2 of None \<Rightarrow> merge_method self | Some x \<Rightarrow> x)
                   in if mm \<notin> {None, Some ''rebase-ff''} \<and> message self \<noteq> m
                      then unstage ''merge message updated'' self e2 else e2)
     in case write_closed vals2 self e3 of
          Inl err \<Rightarrow> Some (Inl err)
        | Inr (vals3, e4) \<Rightarrow>
            let e5 = update_pr (pr_id self) (assign vals3) e4 in
            (case w_head vals3 of
               None \<Rightarrow> Some (Inr e5)
             | Some newhead \<Rightarrow>
                 if newhead = [] then Some (Inr e5)
                 else pr_validate
                        (case find (\<lambda>c. cr_sha c = newhead) (commit_rows e5) of
                           None \<Rightarrow> [] | Some c \<Rightarrow> cr_statuses c)
                        (pr_id self) e5))"


definition no_pr_vals :: pr_vals where
  "no_pr_vals = \<lparr>w_squash = None, w_merge_method = None, w_state = None, w_reviewed_by = None,
     w_target = None, w_label = None, w_message = None, w_closed = None, w_batch_id = None,
     w_head = None, w_draft = None, w_error = None\<rparr>"


section \<open>Recomputation on a change of the overrides\<close>

text \<open>
  \<open>self.search([('parent_id', '=', v)])\<close>: the rows whose \<open>parent_id\<close> is \<open>v\<close>; the value
  \<open>False\<close> is \<open>None\<close>. The order of the result is the table's.
\<close>

definition search_parent :: "pull_request list \<Rightarrow> nat option \<Rightarrow> pull_request list" where
  "search_parent db v = filter (\<lambda>r. parent_id r = v) db"

text \<open>
  \<open>pr.id\<close> on a recordset: \<open>False\<close> on the empty one, the id of a single record, and a
  \<open>ValueError\<close> (expected singleton) on several.
\<close>

definition record_id :: "pull_request list \<Rightarrow> py_error + nat option" where
  "record_id rs =
    (case rs of [] \<Rightarrow> Inr None | [r] \<Rightarrow> Inr (Some (pr_id r)) | _ # _ # _ \<Rightarrow> Inl ValueError)"

text \<open>
  \<open>_iter_descendants\<close>, from the recordset \<open>pr\<close>: the recordsets yielded, in order, or the
  exception that ends the iteration. On links that run in a circle the loop does not end,
  which is the value \<open>None\<close>.
\<close>

partial_function (option) iter_descendants ::
  "pull_request list \<Rightarrow> pull_request list \<Rightarrow> (py_error + pull_request list list) option" where
  "iter_descendants db pr =
    (case record_id pr of
       Inl e \<Rightarrow> Some (Inl e)
     | Inr i \<Rightarrow>
         (let found = search_parent db i in
          if found = [] then Some (Inr [])
          else Option.bind (iter_descendants db found)
                 (\<lambda>rest. Some (case rest of Inl e \<Rightarrow> Inl e | Inr ys \<Rightarrow> Inr (found # ys)))))"

text \<open>
  The records to recompute, by field: \<open>env.add_to_compute(field, records)\<close> adds the
  records to those of the field.
\<close>

type_synonym to_compute = "string \<Rightarrow> nat set"

definition add_to_compute :: "string \<Rightarrow> pull_request list \<Rightarrow> to_compute \<Rightarrow> to_compute" where
  "add_to_compute field records tc = tc(field := tc field \<union> set (map pr_id records))"

text \<open>
  \<open>PullRequests.modified\<close> on the recordset \<open>self\<close>. The inherited \<open>modified\<close> of the ORM,
  which follows the declared dependencies, is the parameter \<open>super_modified\<close>.
\<close>

definition modified ::
  "(string list \<Rightarrow> pull_request list \<Rightarrow> to_compute \<Rightarrow> to_compute) \<Rightarrow> string list
    \<Rightarrow> pull_request list \<Rightarrow> pull_request list \<Rightarrow> to_compute \<Rightarrow> (py_error + to_compute) option" where
  "modified super_modified fnames db self tc =
    (if ''overrides'' \<in> set fnames then
       (case iter_descendants db self of
          None \<Rightarrow> None
        | Some (Inl e) \<Rightarrow> Some (Inl e)
        | Some (Inr ds) \<Rightarrow>
            let descendants_or_self = self @ concat ds in
            Some (Inr (super_modified fnames self
              (add_to_compute ''state'' descendants_or_self
                (add_to_compute ''statuses_full'' descendants_or_self
                  (add_to_compute ''status'' descendants_or_self tc))))))
     else Some (Inr (super_modified fnames self tc)))"

text \<open>The forward-port links of a table: the pairs (id of a pull request, id of its parent).\<close>

definition parent_rel :: "pull_request list \<Rightarrow> (nat \<times> nat) set" where
  "parent_rel db = {(pr_id r, q) | r q. r \<in> set db \<and> parent_id r = Some q}"


section \<open>The command interpreter\<close>















subsection \<open>One directive\<close>


text \<open>The \<open>feedback\<close> helper of \<open>_parse_commands\<close>: one more row in the queue.\<close>

definition feedback :: "pull_request \<Rightarrow> message option \<Rightarrow> bool \<Rightarrow> env \<Rightarrow> env" where
  "feedback self msg close e =
    e\<lparr>feedback_queue := feedback_queue e @
        [\<lparr>fb_repository = repo_id (repository self), fb_pull_request = number self,
          fb_message = msg, fb_close = close\<rparr>]\<rparr>"








subsection \<open>A comment\<close>


text \<open>
  \<open>s.count(sub)\<close> for a substring that is not empty: the occurrences that do not overlap,
  from the left; \<open>k\<close> is the number of characters still covered by the last one.
\<close>

fun count_from :: "nat \<Rightarrow> string \<Rightarrow> string \<Rightarrow> nat" where
  "count_from k sub [] = 0"
| "count_from k sub (c # cs) =
    (if k = 0 \<and> take (length sub) (c # cs) = sub
     then Suc (count_from (length sub - 1) sub cs)
     else count_from (k - 1) sub cs)"

definition removeprefix :: "string \<Rightarrow> string \<Rightarrow> string" where
  "removeprefix pre s = (if take (length pre) s = pre then drop (length pre) s else s)"



text \<open>The message of the rejection of a comment, from the rejections of its directives.\<close>

definition rejection_message :: "string \<Rightarrow> nat \<Rightarrow> string list \<Rightarrow> string" where
  "rejection_message who ncmds rejections =
    (let rejections_list = concat (map (\<lambda>r. ''\<newline>- '' @ r) rejections);
         footer = (if ncmds = length rejections then []
                   else ''\<newline>\<newline>For your own safety I'' @ [CHR 0x27]
                        @ ''ve ignored everything in your comment.'');
         shown = (if count_from 0 ''\<newline>- '' rejections_list = 1
                  then '' '' @ removeprefix ''\<newline>- '' rejections_list
                  else rejections_list)
     in ''@'' @ who @ shown @ footer)"



section \<open>Example data\<close>

definition ex_branch :: branch where
  "ex_branch = \<lparr>branch_id = 1, branch_name = ''master'', project_id = \<lparr>ci_timeout = 60\<rparr>\<rparr>"

definition ex_repo :: repository where
  "ex_repo = \<lparr>repo_id = 1, repo_name = ''odoo/odoo'',
     status_ids = [\<lparr>ctx = ''ci'', branch_filter = None, prs = True, stagings = True\<rparr>,
                   \<lparr>ctx = ''lint'', branch_filter = None, prs = True, stagings = True\<rparr>]\<rparr>"

text \<open>A staging of four batches with one head, whose commit has the given statuses.\<close>

definition ex_staging :: "staging_state \<Rightarrow> bool \<Rightarrow> statuses \<Rightarrow> staging" where
  "ex_staging st act sts =
    \<lparr>staging_id = 7, staging_target = ex_branch, batch_ids = [1, 2, 3, 4], state = st,
     active = act, timeout_limit = 500, reason = None,
     heads = [\<lparr>repository_id = ex_repo, commit_id = \<lparr>sha = ''c0ffee'', commit_statuses = sts\<rparr>\<rparr>],
     commits = [\<lparr>repository_id = ex_repo, commit_id = \<lparr>sha = ''c0ffee'', commit_statuses = sts\<rparr>\<rparr>],
     statuses_cache = None\<rparr>"

definition ex_env :: env where
  "ex_env = \<lparr>pull_requests = [], batches = [], stagings = [], splits = [], partners = [],
     commit_rows = [], fetch_jobs = [], feedback_queue = [], tagging_queue = [],
     change_message = None, change_author = None, precommit_unlink = []\<rparr>"


text \<open>The example staging on another pass: its head's commit has got other statuses.\<close>

definition with_statuses :: "statuses \<Rightarrow> staging \<Rightarrow> staging" where
  "with_statuses sts s =
    s\<lparr>heads := map (\<lambda>h. h\<lparr>commit_id := (commit_id h)\<lparr>commit_statuses := sts\<rparr>\<rparr>) (heads s)\<rparr>"


definition ex_world :: world where
  "ex_world = \<lparr>refs = (\<lambda>repo b. ''base''), ff_calls = 0, slept = []\<rparr>"

text \<open>A successful staging over two repositories, with the heads \<open>h1\<close> and \<open>h2\<close>.\<close>

definition ex_two_repos :: staging where
  "ex_two_repos =
    \<lparr>staging_id = 8, staging_target = ex_branch, batch_ids = [1], state = Success,
     active = True, timeout_limit = 500, reason = None,
     heads = [\<lparr>repository_id = ex_repo, commit_id = \<lparr>sha = ''h1'', commit_statuses = []\<rparr>\<rparr>,
              \<lparr>repository_id = ex_repo\<lparr>repo_id := 2, repo_name := ''odoo/enterprise''\<rparr>,
                commit_id = \<lparr>sha = ''h2'', commit_statuses = []\<rparr>\<rparr>],
     commits = [\<lparr>repository_id = ex_repo, commit_id = \<lparr>sha = ''h1'', commit_statuses = []\<rparr>\<rparr>,
                \<lparr>repository_id = ex_repo\<lparr>repo_id := 2, repo_name := ''odoo/enterprise''\<rparr>,
                  commit_id = \<lparr>sha = ''h2'', commit_statuses = []\<rparr>\<rparr>],
     statuses_cache = None\<rparr>"


text \<open>
  A pull request of the example repository, with the given id, parent, raw statuses and
  overrides.
\<close>

definition ex_pr :: "nat \<Rightarrow> nat option \<Rightarrow> statuses \<Rightarrow> statuses \<Rightarrow> pull_request" where
  "ex_pr i par raw ov =
    \<lparr>pr_id = i, number = 100 + i, repository = ex_repo, target = ex_branch, author = Some 5,
     label = ''dev:fix'', head = ''c0ffee'', message = ''fix'', source_id = None, parent_id = par,
     batch_id = Some i, closed = False, error = False, draft = False, squash = False,
     merge_method = None, reviewed_by = None, overrides = ov, statuses = raw,
     statuses_full = [], status = ''pending'', previous_failure = [], commits_map = []\<rparr>"

text \<open>
  A pull request whose two contexts are both overridden, and its forward port, whose CI
  fails and which overrides \<open>lint\<close> itself.
\<close>

definition ex_parent :: pull_request where
  "ex_parent = ex_pr 1 None []
     [(''ci'', [(''state'', ''success''), (''target_url'', ''parent'')]),
      (''lint'', [(''state'', ''success''), (''target_url'', ''parent'')])]"

definition ex_child :: pull_request where
  "ex_child = ex_pr 2 (Some 1)
     [(''ci'', [(''state'', ''failure'')]), (''lint'', [(''state'', ''pending'')])]
     [(''lint'', [(''state'', ''success''), (''target_url'', ''child'')])]"


text \<open>A chain of forward ports: the pull request 1, its forward port 2, and 3, the forward port of 2.\<close>

definition ex_chain :: "pull_request list" where
  "ex_chain = [ex_parent, ex_child, ex_pr 3 (Some 2) [] []]"






text \<open>A table in which the pull request 1 has two forward ports, 2 and 3.\<close>

definition ex_fork :: "pull_request list" where
  "ex_fork = [ex_parent, ex_child, ex_pr 3 (Some 1) [] []]"


section \<open>Properties\<close>

text \<open>
  C1. The computed state follows the priority chain: merged when the batch's merge date is
  set; otherwise closed when the closed flag is set; otherwise error when the error flag is
  set; otherwise ready when the batch skips checks; otherwise it is given by the pair (has a
  reviewer, status is success): (no, no) opened, (no, yes) validated, (yes, no) approved,
  (yes, yes) ready.
\<close>

theorem compute_state_priority_chain:
  "compute_state bt pr =
    (if (\<exists>b d. bt = Some b \<and> merge_date b = Some d) then Merged
     else if closed pr then Closed
     else if error pr then Error
     else if (\<exists>b. bt = Some b \<and> skipchecks b) then Ready
     else if reviewed_by pr = None \<and> status pr \<noteq> ''success'' then Opened
     else if reviewed_by pr = None \<and> status pr = ''success'' then Validated
     else if reviewed_by pr \<noteq> None \<and> status pr \<noteq> ''success'' then Approved
     else Ready)"
  by (cases bt; cases "reviewed_by pr")
     (auto simp: compute_state_def py_bool_def states_def)

subsection \<open>Writes on a staging\<close>

lemma staging_write_fields:
  "active (staging_write vals s) = (case v_active vals of None \<Rightarrow> active s | Some a \<Rightarrow> a)"
  "state (staging_write vals s) = (case v_state vals of None \<Rightarrow> state s | Some a \<Rightarrow> a)"
  "reason (staging_write vals s) = (case v_reason vals of None \<Rightarrow> reason s | Some a \<Rightarrow> a)"
  "timeout_limit (staging_write vals s) =
     (case v_timeout_limit vals of None \<Rightarrow> timeout_limit s | Some a \<Rightarrow> a)"
  "batch_ids (staging_write vals s) = batch_ids s"
  by (simp_all add: staging_write_def super_write_def no_vals_def Let_def)

text \<open>
  C7. Splitting a staging of more than one batch creates exactly two new splits, of the
  batches before and from the midpoint: their batch lists, one after the other, are the
  staging's ordered batch list, and neither is empty. The staging is deactivated in the state
  failure, and the call returns \<open>True\<close>.
\<close>

theorem try_splitting_bisects:
  assumes "1 < length (batch_ids s)"
  shows "case try_splitting e s of (e', s', r) \<Rightarrow>
    (\<exists>sh st. splits e' = splits e @ [sh, st]
       \<and> split_batch_ids sh @ split_batch_ids st = batch_ids s
       \<and> length (split_batch_ids sh) = length (batch_ids s) div 2
       \<and> split_batch_ids sh \<noteq> [] \<and> split_batch_ids st \<noteq> [])
    \<and> state s' = Failure \<and> \<not> active s' \<and> batch_ids s' = batch_ids s \<and> r"
proof -
  let ?m = "length (batch_ids s) div 2"
  have m: "0 < ?m" "?m < length (batch_ids s)"
    using assms by auto
  have "take ?m (batch_ids s) \<noteq> []" "drop ?m (batch_ids s) \<noteq> []"
    using m by auto
  moreover have "length (take ?m (batch_ids s)) = ?m"
    using m by simp
  ultimately show ?thesis
    using assms by (simp add: try_splitting_def Let_def staging_write_fields)
qed

theorem try_splitting_bisects_witness:
  "1 < length (batch_ids (ex_staging Failure True []))
   \<and> (case try_splitting ex_env (ex_staging Failure True []) of (e', s', r) \<Rightarrow>
        splits e' = [\<lparr>split_target = 1, split_batch_ids = [1, 2]\<rparr>,
                     \<lparr>split_target = 1, split_batch_ids = [3, 4]\<rparr>]
        \<and> state s' = Failure \<and> \<not> active s' \<and> r)"
proof -
  have h: "1 < length (batch_ids (ex_staging Failure True []))"
    by (simp add: ex_staging_def)
  show ?thesis
    using h try_splitting_bisects [OF h, of ex_env]
    by (simp add: try_splitting_def Let_def staging_write_fields ex_staging_def ex_env_def
        ex_branch_def)
qed

text \<open>
  C10. Cancelling only touches active stagings. Called on a staging that is not active,
  \<open>cancel\<close> returns \<open>False\<close> and leaves the staging as it is; called on any recordset, it
  leaves every staging that is not active as it is, with its state, reason and active flag.
\<close>

theorem cancel_inactive_unchanged:
  "(\<not> active s \<longrightarrow> cancel r [s] = ([s], False))
   \<and> length (fst (cancel r self)) = length self
   \<and> (\<forall>i < length self. \<not> active (self ! i) \<longrightarrow> fst (cancel r self) ! i = self ! i)"
  by (simp add: cancel_def)

theorem cancel_inactive_unchanged_witness:
  "\<not> active (ex_staging FF_failed False [])
   \<and> cancel ''unstaged'' [ex_staging FF_failed False []] = ([ex_staging FF_failed False []], False)
   \<and> fst (cancel ''unstaged'' [ex_staging Pending True [], ex_staging FF_failed False []]) ! 1
       = ex_staging FF_failed False []
   \<and> state (fst (cancel ''unstaged'' [ex_staging Pending True [], ex_staging FF_failed False []]) ! 0)
       = Cancelled"
proof -
  have h: "\<not> active (ex_staging FF_failed False [])"
    by (simp add: ex_staging_def)
  have "\<not> active ([ex_staging Pending True [], ex_staging FF_failed False []] ! 1)"
    by (simp add: ex_staging_def)
  then show ?thesis
    using h cancel_inactive_unchanged
      [of "ex_staging FF_failed False []" "''unstaged''"
          "[ex_staging Pending True [], ex_staging FF_failed False []]"]
    by (simp add: cancel_def staging_write_fields ex_staging_def)
qed

subsection \<open>Validation of a staging\<close>






text \<open>
  A context that goes from success to pending and back, while another required context is
  still missing: the second pass moves the limit, and no pass fails the staging.
\<close>

lemma validate_flapping_example:
  "validate 900 (ex_staging Pending True [(''ci'', [(''state'', ''success'')])])
     = Inr (ex_staging Pending True [(''ci'', [(''state'', ''success'')])])
   \<and> validate 1000 (ex_staging Pending True [(''ci'', [(''state'', ''pending'')])])
     = Inr ((ex_staging Pending True [(''ci'', [(''state'', ''pending'')])])\<lparr>timeout_limit := 4600\<rparr>)
   \<and> validate 1100 (with_statuses [(''ci'', [(''state'', ''success'')])]
        ((ex_staging Pending True [(''ci'', [(''state'', ''pending'')])])\<lparr>timeout_limit := 4600\<rparr>))
     = Inr (with_statuses [(''ci'', [(''state'', ''success'')])]
        ((ex_staging Pending True [(''ci'', [(''state'', ''pending'')])])\<lparr>timeout_limit := 4600\<rparr>))"
  by (simp add: validate_def required_statuses_def cmap_of_def head_ids_def req_states_def
      for_staging_def for_branch_def ex_staging_def ex_repo_def ex_branch_def with_statuses_def
      staging_write_def super_write_def no_vals_def)



subsection \<open>The dry run of the fast-forward protocol\<close>

lemma tmp_target_neq: "''tmp.'' @ n \<noteq> n"
proof
  assume "''tmp.'' @ n = n"
  then have "length (''tmp.'' @ n) = length n" by simp
  then show False by simp
qed

lemma set_ref_frame:
  "b \<noteq> tmp \<Longrightarrow> refs (set_ref repo tmp c w) r b = refs w r b"
  "ff_calls (set_ref repo tmp c w) = ff_calls w"
  "slept (set_ref repo tmp c w) = slept w"
  by (simp_all add: set_ref_def)

lemma reset_tmp_frame:
  "b \<noteq> tmp \<Longrightarrow> refs (reset_tmp tmp t names w) r b = refs w r b"
  "ff_calls (reset_tmp tmp t names w) = ff_calls w"
  "slept (reset_tmp tmp t names w) = slept w"
  unfolding reset_tmp_def
  by (induction names arbitrary: w) (simp_all add: set_ref_frame)

lemma fast_forward_frame:
  "b \<noteq> tmp \<Longrightarrow> refs (fst (fast_forward ok repo tmp c w)) r b = refs w r b"
  "ff_calls (fst (fast_forward ok repo tmp c w)) = Suc (ff_calls w)"
  "slept (fst (fast_forward ok repo tmp c w)) = slept w"
  by (simp_all add: fast_forward_def set_ref_def)

lemma ff_tmp_frame:
  "b \<noteq> tmp \<Longrightarrow> refs (fst (ff_tmp ok tmp cs w)) r b = refs w r b"
proof (induction cs arbitrary: w)
  case Nil
  show ?case by simp
next
  case (Cons c cs)
  obtain w' res where ff: "fast_forward ok (repo_name (repository_id c)) tmp (sha (commit_id c)) w = (w', res)"
    by (cases "fast_forward ok (repo_name (repository_id c)) tmp (sha (commit_id c)) w")
  have "refs w' r b = refs w r b"
    using fast_forward_frame(1) [OF Cons.prems, of ok "repo_name (repository_id c)" "sha (commit_id c)" w r]
    by (simp add: ff)
  then show ?case
    using Cons.IH [OF Cons.prems, of w'] by (simp add: ff split: option.splits)
qed

lemma ff_tmp_fails:
  "k < length cs \<Longrightarrow> \<not> ok (ff_calls w + k) \<Longrightarrow> snd (ff_tmp ok tmp cs w) = Some FastForwardError"
proof (induction cs arbitrary: w k)
  case Nil
  then show ?case by simp
next
  case (Cons c cs)
  show ?case
  proof (cases "ok (ff_calls w)")
    case False
    then show ?thesis by (simp add: fast_forward_def)
  next
    case True
    then obtain k' where k: "k = Suc k'"
      using Cons.prems(2) by (cases k) auto
    let ?w = "set_ref (repo_name (repository_id c)) tmp (sha (commit_id c)) (w\<lparr>ff_calls := Suc (ff_calls w)\<rparr>)"
    have "k' < length cs" "\<not> ok (ff_calls ?w + k')"
      using Cons.prems k by (simp_all add: set_ref_frame)
    then have "snd (ff_tmp ok tmp cs ?w) = Some FastForwardError"
      by (rule Cons.IH)
    then show ?thesis
      using True by (simp add: fast_forward_def)
  qed
qed

lemma safety_dance_dry_run_fails:
  assumes "k < length cs" and "\<not> ok (ff_calls w + k)"
  shows "snd (safety_dance ok s cs w) = Some FastForwardError"
    and "b \<noteq> ''tmp.'' @ branch_name (staging_target s)
      \<Longrightarrow> refs (fst (safety_dance ok s cs w)) r b = refs w r b"
proof -
  let ?tmp = "''tmp.'' @ branch_name (staging_target s)"
  let ?w1 = "reset_tmp ?tmp (branch_name (staging_target s)) (mapped_repository_names cs) w"
  have "\<not> ok (ff_calls ?w1 + k)"
    using assms(2) by (simp add: reset_tmp_frame)
  then have fails: "snd (ff_tmp ok ?tmp cs ?w1) = Some FastForwardError"
    using assms(1) ff_tmp_fails by blast
  then have eq: "safety_dance ok s cs w = (fst (ff_tmp ok ?tmp cs ?w1), Some FastForwardError)"
    by (cases "ff_tmp ok ?tmp cs ?w1") (simp add: safety_dance_def Let_def)
  show "snd (safety_dance ok s cs w) = Some FastForwardError"
    by (simp add: eq)
  show "refs (fst (safety_dance ok s cs w)) r b = refs w r b" if "b \<noteq> ?tmp"
    using that by (simp add: eq ff_tmp_frame reset_tmp_frame)
qed

text \<open>
  C3. For an active staging in the state success: when one of the dry-run fast-forwards of
  the temporary refs fails, the merge attempt ends with a fast-forward error, every ref of
  every repository other than the temporary one is what it was (so no target branch has
  moved), the error is caught, the database is left alone, and the staging ends inactive in
  the state \<open>ff_failed\<close>.
\<close>

theorem check_status_dry_run_failure:
  assumes "active s" and "state s = Success"
    and "k < length (commits s)" and "\<not> ok (ff_calls w + k)"
  shows "case check_status ok now pseudobranch e w s of (e', w', s', err) \<Rightarrow>
      snd (safety_dance ok s (commits s) w) = Some FastForwardError
      \<and> (\<forall>repo. refs w' repo (branch_name (staging_target s))
                  = refs w repo (branch_name (staging_target s)))
      \<and> (\<forall>repo b. b \<noteq> ''tmp.'' @ branch_name (staging_target s) \<longrightarrow> refs w' repo b = refs w repo b)
      \<and> state s' = FF_failed \<and> \<not> active s' \<and> e' = e \<and> err = None"
proof -
  obtain w' where sd: "safety_dance ok s (commits s) w = (w', Some FastForwardError)"
    using safety_dance_dry_run_fails(1) [where ok = ok and k = k and w = w and s = s and cs = "commits s"]
      assms(3,4)
    by (cases "safety_dance ok s (commits s) w") simp
  have frame: "refs w' repo b = refs w repo b"
    if "b \<noteq> ''tmp.'' @ branch_name (staging_target s)" for repo b
    using safety_dance_dry_run_fails(2)
      [where ok = ok and k = k and w = w and s = s and cs = "commits s" and b = b and r = repo]
      assms(3,4) that
    by (simp add: sd)
  have "branch_name (staging_target s) \<noteq> ''tmp.'' @ branch_name (staging_target s)"
    using tmp_target_neq [of "branch_name (staging_target s)"] by simp
  then have "refs w' repo (branch_name (staging_target s)) = refs w repo (branch_name (staging_target s))"
    for repo
    by (rule frame)
  then show ?thesis
    using assms(1,2) frame
    by (simp add: check_status_def sd staging_write_fields no_vals_def)
qed

theorem check_status_dry_run_failure_witness:
  "active ex_two_repos \<and> state ex_two_repos = Success
   \<and> (1::nat) < length (commits ex_two_repos) \<and> \<not> (\<lambda>n. n \<noteq> 1) (ff_calls ex_world + 1)
   \<and> (case check_status (\<lambda>n. n \<noteq> 1) 1000 None ex_env ex_world ex_two_repos of
        (e', w', s', err) \<Rightarrow>
          refs w' ''odoo/odoo'' ''master'' = ''base''
          \<and> refs w' ''odoo/enterprise'' ''master'' = ''base''
          \<and> refs w' ''odoo/odoo'' ''tmp.master'' = ''h1''
          \<and> state s' = FF_failed \<and> \<not> active s' \<and> e' = ex_env \<and> err = None)"
proof -
  have h: "active ex_two_repos" "state ex_two_repos = Success"
    "(1::nat) < length (commits ex_two_repos)" "\<not> (\<lambda>n. n \<noteq> 1) (ff_calls ex_world + 1)"
    by (simp_all add: ex_two_repos_def ex_world_def)
  have run: "fst (snd (check_status (\<lambda>n. n \<noteq> 1) 1000 None ex_env ex_world ex_two_repos))
      = \<lparr>refs = (\<lambda>repo b. ''base'')(''odoo/odoo'' := (\<lambda>b. ''base'')(''tmp.master'' := ''h1''),
                  ''odoo/enterprise'' := (\<lambda>b. ''base'')(''tmp.master'' := ''base'')),
         ff_calls = 2, slept = []\<rparr>"
    by (simp add: check_status_def safety_dance_def reset_tmp_def mapped_repository_names_def
        fast_forward_def set_ref_def remote_head_def ex_two_repos_def ex_world_def ex_repo_def
        ex_branch_def Let_def fun_upd_twist)
  show ?thesis
    using h run check_status_dry_run_failure
      [where ok = "\<lambda>n. n \<noteq> 1" and k = 1 and w = ex_world and s = ex_two_repos
         and now = 1000 and pseudobranch = None and e = ex_env]
    by (auto simp: ex_two_repos_def ex_branch_def split: prod.splits)
qed


subsection \<open>The real fast-forwards and their retries\<close>









subsection \<open>Status aggregation of a pull request\<close>





lemma aggregate_short_circuits:
  "context_state sts c = Inr v \<Longrightarrow> v \<in> {''error'', ''failure''} \<Longrightarrow>
   aggregate sts (c # cs) st = Inr ''failure''"
  by auto




subsection \<open>Descendants of a pull request\<close>

lemma finite_parent_rel: "finite (parent_rel db)"
proof -
  have "parent_rel db \<subseteq> (\<lambda>r. (pr_id r, the (parent_id r))) ` set db"
    by (force simp: parent_rel_def)
  then show ?thesis
    by (rule finite_subset) simp
qed

lemma parent_rel_search:
  "(z, x) \<in> parent_rel db \<longleftrightarrow> (\<exists>r\<in>set (search_parent db (Some x)). pr_id r = z)"
  by (auto simp: parent_rel_def search_parent_def)

lemma descendants_none:
  assumes "search_parent db (Some x) = []"
  shows "{i. (i, x) \<in> (parent_rel db)\<^sup>+} = {}"
proof -
  have "\<not> (z, x) \<in> parent_rel db" for z
    using assms by (simp add: parent_rel_search)
  then show ?thesis
    by (auto dest: tranclD2)
qed

lemma descendants_one:
  assumes "search_parent db (Some x) = [c]"
  shows "{i. (i, x) \<in> (parent_rel db)\<^sup>+} = insert (pr_id c) {i. (i, pr_id c) \<in> (parent_rel db)\<^sup>+}"
proof -
  have edge: "(z, x) \<in> parent_rel db \<longleftrightarrow> z = pr_id c" for z
    using assms by (auto simp: parent_rel_search)
  show ?thesis
  proof (intro set_eqI iffI)
    fix i assume "i \<in> {i. (i, x) \<in> (parent_rel db)\<^sup>+}"
    then obtain z where "(i, z) \<in> (parent_rel db)\<^sup>*" "(z, x) \<in> parent_rel db"
      by (auto dest: tranclD2)
    then have "(i, pr_id c) \<in> (parent_rel db)\<^sup>*"
      by (simp add: edge)
    then show "i \<in> insert (pr_id c) {i. (i, pr_id c) \<in> (parent_rel db)\<^sup>+}"
      by (auto simp: rtrancl_eq_or_trancl)
  next
    fix i assume "i \<in> insert (pr_id c) {i. (i, pr_id c) \<in> (parent_rel db)\<^sup>+}"
    moreover have "(pr_id c, x) \<in> parent_rel db"
      by (simp add: edge)
    ultimately show "i \<in> {i. (i, x) \<in> (parent_rel db)\<^sup>+}"
      by (auto intro: trancl_into_trancl)
  qed
qed

lemma iter_descendants_chain:
  assumes ac: "acyclic (parent_rel db)"
    and lin: "\<forall>i. length (search_parent db (Some i)) \<le> 1"
  shows "\<exists>ds. iter_descendants db [p] = Some (Inr ds)
    \<and> pr_id ` set (concat ds) = {i. (i, pr_id p) \<in> (parent_rel db)\<^sup>+}"
proof -
  have "wf (parent_rel db)"
    using finite_parent_rel ac by (rule finite_acyclic_wf)
  then have "\<forall>p. pr_id p = x \<longrightarrow> (\<exists>ds. iter_descendants db [p] = Some (Inr ds)
      \<and> pr_id ` set (concat ds) = {i. (i, x) \<in> (parent_rel db)\<^sup>+})" for x
  proof (induction x rule: wf_induct_rule)
    case (less x)
    show ?case
    proof (intro allI impI)
      fix p :: pull_request
      assume px: "pr_id p = x"
      have "length (search_parent db (Some x)) \<le> 1"
        using lin by blast
      then consider "search_parent db (Some x) = []" | c where "search_parent db (Some x) = [c]"
        by (cases "search_parent db (Some x)") (auto simp: Suc_le_eq)
      then show "\<exists>ds. iter_descendants db [p] = Some (Inr ds)
          \<and> pr_id ` set (concat ds) = {i. (i, x) \<in> (parent_rel db)\<^sup>+}"
      proof cases
        case 1
        have "iter_descendants db [p] = Some (Inr [])"
          by (subst iter_descendants.simps) (simp add: record_id_def px 1)
        then show ?thesis
          by (simp add: descendants_none [OF 1])
      next
        case 2
        have "(pr_id c, x) \<in> parent_rel db"
          by (simp add: parent_rel_search 2)
        then obtain ds where ds: "iter_descendants db [c] = Some (Inr ds)"
          "pr_id ` set (concat ds) = {i. (i, pr_id c) \<in> (parent_rel db)\<^sup>+}"
          using less.IH by blast
        have "iter_descendants db [p] = Some (Inr ([c] # ds))"
          by (subst iter_descendants.simps) (simp add: record_id_def px 2 ds(1))
        then show ?thesis
          using ds(2) by (simp add: descendants_one [OF 2])
      qed
    qed
  qed
  then show ?thesis by blast
qed

lemma parents_older_acyclic:
  assumes "\<forall>r\<in>set db. \<forall>q. parent_id r = Some q \<longrightarrow> q < pr_id r"
  shows "acyclic (parent_rel db)"
proof -
  have "parent_rel db \<subseteq> less_than\<inverse>"
    using assms by (auto simp: parent_rel_def)
  moreover have "acyclic (less_than\<inverse>)"
    using wf_less_than by (simp add: wf_acyclic)
  ultimately show ?thesis
    by (rule acyclic_subset [rotated])
qed

text \<open>On a table whose links do not run in a circle, the walk up the parents ends.\<close>

lemma iter_ancestors_terminates:
  assumes "acyclic (parent_rel db)" and "p \<in> set db"
  shows "\<exists>chain. iter_ancestors db (Some p) = Some chain"
proof -
  have "wf ((parent_rel db)\<inverse>)"
    using finite_parent_rel assms(1) by (rule finite_acyclic_wf_converse)
  then have "\<forall>p\<in>set db. pr_id p = x \<longrightarrow> (\<exists>chain. iter_ancestors db (Some p) = Some chain)" for x
  proof (induction x rule: wf_induct_rule)
    case (less x)
    show ?case
    proof (intro ballI impI)
      fix p assume p: "p \<in> set db" "pr_id p = x"
      show "\<exists>chain. iter_ancestors db (Some p) = Some chain"
      proof (cases "parent_of db p")
        case None
        then show ?thesis
          by (subst iter_ancestors.simps, simp, subst iter_ancestors.simps, simp)
      next
        case (Some q)
        then obtain i where i: "parent_id p = Some i" "find (\<lambda>r. pr_id r = i) db = Some q"
          by (auto simp: parent_of_def browse_def split: option.splits)
        then have q: "q \<in> set db" "pr_id q = i"
          by (auto simp: find_Some_iff)
        then have "(pr_id q, x) \<in> (parent_rel db)\<inverse>"
          using p i(1) by (auto simp: parent_rel_def)
        then obtain chain where "iter_ancestors db (Some q) = Some chain"
          using less.IH q(1) by blast
        then show ?thesis
          by (subst iter_ancestors.simps) (simp add: Some)
      qed
    qed
  qed
  then show ?thesis
    using assms(2) by blast
qed

text \<open>
  C8. On a table in which no pull request has two forward ports and the links do not run in
  a circle: a change of the overrides of a pull request adds, to the records whose
  \<open>status\<close>, \<open>statuses_full\<close> and \<open>state\<close> are to be recomputed, exactly the pull request and
  those that descend from it through the parent links; none of its ancestors is among them.
  The inherited \<open>modified\<close> of the ORM then runs on the pull request alone.
\<close>

theorem modified_recomputes_descendants:
  assumes "''overrides'' \<in> set fnames"
    and "acyclic (parent_rel db)"
    and "\<forall>i. length (search_parent db (Some i)) \<le> 1"
  shows "\<exists>tc'. modified super_modified fnames db [p] tc = Some (Inr (super_modified fnames [p] tc'))
    \<and> (\<forall>f. tc' f =
          (if f \<in> {''status'', ''statuses_full'', ''state''}
           then tc f \<union> insert (pr_id p) {i. (i, pr_id p) \<in> (parent_rel db)\<^sup>+}
           else tc f))
    \<and> insert (pr_id p) {i. (i, pr_id p) \<in> (parent_rel db)\<^sup>+}
        \<inter> {a. (pr_id p, a) \<in> (parent_rel db)\<^sup>+} = {}"
proof -
  obtain ds where ds: "iter_descendants db [p] = Some (Inr ds)"
    "pr_id ` set (concat ds) = {i. (i, pr_id p) \<in> (parent_rel db)\<^sup>+}"
    using iter_descendants_chain [OF assms(2,3)] by blast
  have no_anc: "insert (pr_id p) {i. (i, pr_id p) \<in> (parent_rel db)\<^sup>+}
      \<inter> {a. (pr_id p, a) \<in> (parent_rel db)\<^sup>+} = {}"
    using assms(2) by (auto simp: acyclic_def dest: trancl_trans)
  let ?dos = "[p] @ concat ds"
  let ?tc' = "add_to_compute ''state'' ?dos
      (add_to_compute ''statuses_full'' ?dos (add_to_compute ''status'' ?dos tc))"
  have ids: "set (map pr_id ?dos) = insert (pr_id p) {i. (i, pr_id p) \<in> (parent_rel db)\<^sup>+}"
    using ds(2) by simp
  have run: "modified super_modified fnames db [p] tc = Some (Inr (super_modified fnames [p] ?tc'))"
    using assms(1) by (simp add: modified_def ds(1) Let_def)
  have tc': "?tc' f =
      (if f \<in> {''status'', ''statuses_full'', ''state''}
       then tc f \<union> insert (pr_id p) {i. (i, pr_id p) \<in> (parent_rel db)\<^sup>+}
       else tc f)" for f
    unfolding add_to_compute_def ids by simp
  show ?thesis
    using run tc' no_anc by blast
qed

theorem modified_recomputes_descendants_witness:
  "''overrides'' \<in> set [''overrides'']
   \<and> acyclic (parent_rel ex_chain)
   \<and> (\<forall>i. length (search_parent ex_chain (Some i)) \<le> 1)
   \<and> (\<exists>tc'. modified (\<lambda>fnames self tc. tc) [''overrides''] ex_chain [ex_child] (\<lambda>f. {})
               = Some (Inr tc')
        \<and> tc' ''status'' = {2, 3} \<and> tc' ''statuses_full'' = {2, 3} \<and> tc' ''state'' = {2, 3}
        \<and> tc' ''overrides'' = {})"
proof -
  have ac: "acyclic (parent_rel ex_chain)"
    by (rule parents_older_acyclic)
      (simp add: ex_chain_def ex_parent_def ex_child_def ex_pr_def)
  have lin: "\<forall>i. length (search_parent ex_chain (Some i)) \<le> 1"
    by (simp add: search_parent_def ex_chain_def ex_parent_def ex_child_def ex_pr_def)
  have ov: "''overrides'' \<in> set [''overrides'']"
    by simp
  have "search_parent ex_chain (Some 2) = [ex_pr 3 (Some 2) [] []]"
    "search_parent ex_chain (Some 3) = []"
    by (simp_all add: search_parent_def ex_chain_def ex_parent_def ex_child_def ex_pr_def)
  then have "{i. (i, 2) \<in> (parent_rel ex_chain)\<^sup>+}
      = insert (pr_id (ex_pr 3 (Some 2) [] [])) {i. (i, pr_id (ex_pr 3 (Some 2) [] [])) \<in> (parent_rel ex_chain)\<^sup>+}"
    "{i. (i, 3) \<in> (parent_rel ex_chain)\<^sup>+} = {}"
    using descendants_one [of ex_chain 2] descendants_none [of ex_chain 3] by simp_all
  then have d: "{i. (i, 2) \<in> (parent_rel ex_chain)\<^sup>+} = {3}"
    by (simp add: ex_pr_def)
  have id: "pr_id ex_child = 2"
    by (simp add: ex_child_def ex_pr_def)
  show ?thesis
    using modified_recomputes_descendants
      [OF ov ac lin, of "\<lambda>fnames self tc. tc" ex_child "\<lambda>f. {}"] ac lin
    by (auto simp: d id)
qed


text \<open>
  Outside the hypothesis of one forward port at most: the search gives the two forward
  ports, and the next round of the loop reads \<open>pr.id\<close> on the two records.
\<close>

lemma iter_descendants_two_forward_ports:
  "iter_descendants ex_fork [ex_parent] = Some (Inl ValueError)"
  by (subst iter_descendants.simps, subst iter_descendants.simps)
    (simp add: record_id_def search_parent_def ex_fork_def ex_parent_def ex_child_def ex_pr_def)

subsection \<open>Writes on a pull request\<close>

lemma update_pr_id_methods:
  assumes "\<And>p. pr_id (f p) = pr_id p \<and> merge_method (f p) = merge_method p"
  shows "map (\<lambda>p. (pr_id p, merge_method p)) (pull_requests (update_pr i f e))
    = map (\<lambda>p. (pr_id p, merge_method p)) (pull_requests e)"
  using assms by (simp add: update_pr_def)

lemma notify_ci_new_failure_methods:
  "map (\<lambda>p. (pr_id p, merge_method p)) (pull_requests (notify_ci_new_failure i ci st e))
    = map (\<lambda>p. (pr_id p, merge_method p)) (pull_requests e)"
  by (simp add: notify_ci_new_failure_def send_def Let_def update_pr_id_methods split: option.splits)

lemma notify_failures_methods:
  "notify_failures i full cs e = Inr e' \<Longrightarrow>
   map (\<lambda>p. (pr_id p, merge_method p)) (pull_requests e')
    = map (\<lambda>p. (pr_id p, merge_method p)) (pull_requests e)"
proof (induction cs arbitrary: e)
  case Nil
  then show ?case by simp
next
  case (Cons c cs)
  then show ?case
    by (auto simp: Let_def notify_ci_new_failure_methods split: option.splits if_splits)
qed

lemma pr_validate_methods:
  "pr_validate sts i e = Some (Inr e') \<Longrightarrow>
   map (\<lambda>p. (pr_id p, merge_method p)) (pull_requests e')
    = map (\<lambda>p. (pr_id p, merge_method p)) (pull_requests e)"
  by (auto simp: pr_validate_def Let_def update_pr_id_methods dest!: notify_failures_methods
      split: option.splits if_splits sum.splits)

lemma write_closed_merge_method:
  "write_closed vals self e = Inr (vals', e') \<Longrightarrow> w_merge_method vals' = w_merge_method vals"
  by (auto simp: write_closed_def Let_def split: option.splits if_splits bool.splits prod.splits list.splits)

lemma write_closed_ids:
  "write_closed vals self e = Inr (vals', e') \<Longrightarrow>
   map pr_id (pull_requests e') = map pr_id (pull_requests e)"
  by (auto simp: write_closed_def get_batch_def Let_def split: option.splits if_splits bool.splits prod.splits list.splits)

lemma unstage_pull_requests: "pull_requests (unstage t self e) = pull_requests e"
  by (simp add: unstage_def cancel_in_def Let_def split: option.splits)


text \<open>
  C9. A write whose values set \<open>squash\<close> to true leaves the pull request without a merge
  method, whatever method it had and whatever method the values give: when the write
  returns, the table has the same rows, and every row of the pull request's id has no merge
  method. A write of no new head, closed flag or target returns.
\<close>

theorem write_squash_clears_merge_method:
  assumes "w_squash vals = Some True"
  shows "(w_head vals = None \<and> w_closed vals = None \<and> w_target vals = None
           \<longrightarrow> (\<exists>e'. pr_write uid vals self e = Some (Inr e')))
    \<and> (\<forall>e'. pr_write uid vals self e = Some (Inr e') \<longrightarrow>
          map pr_id (pull_requests e') = map pr_id (pull_requests e)
          \<and> (\<forall>p\<in>set (pull_requests e'). pr_id p = pr_id self \<longrightarrow> merge_method p = None))"
proof (rule conjI; intro allI impI)
  assume "w_head vals = None \<and> w_closed vals = None \<and> w_target vals = None"
  then show "\<exists>e'. pr_write uid vals self e = Some (Inr e')"
    by (simp add: pr_write_def write_closed_def Let_def)
next
  fix e'
  assume run: "pr_write uid vals self e = Some (Inr e')"
  define vals1 where "vals1 = vals\<lparr>w_merge_method := Some None\<rparr>"
  define vals2 where "vals2 = (if w_state vals1 = Some Ready \<and> w_reviewed_by vals1 = None
      then vals1\<lparr>w_reviewed_by := Some (Some uid)\<rparr> else vals1)"
  obtain e3 where e3: "map pr_id (pull_requests e3) = map pr_id (pull_requests e)"
    and run3: "(case write_closed vals2 self e3 of
          Inl err \<Rightarrow> Some (Inl err)
        | Inr (vals3, e4) \<Rightarrow>
            let e5 = update_pr (pr_id self) (assign vals3) e4 in
            (case w_head vals3 of
               None \<Rightarrow> Some (Inr e5)
             | Some newhead \<Rightarrow>
                 if newhead = [] then Some (Inr e5)
                 else pr_validate
                        (case find (\<lambda>c. cr_sha c = newhead) (commit_rows e5) of
                           None \<Rightarrow> [] | Some c \<Rightarrow> cr_statuses c)
                        (pr_id self) e5)) = Some (Inr e')"
  proof -
    let ?e1 = "(if w_state vals1 = Some Ready
               then (update_batch (batch_id self) (\<lambda>b. b\<lparr>skipchecks := True\<rparr>) e)
                      \<lparr>pull_requests := map (\<lambda>p.
                          if batch_id self \<noteq> None \<and> batch_id p = batch_id self
                             \<and> pr_id p \<noteq> pr_id self \<and> reviewed_by p = None
                          then p\<lparr>reviewed_by := Some uid\<rparr> else p) (pull_requests e)\<rparr>
               else e)"
    let ?e2 = "(case w_target vals2 of
                 None \<Rightarrow> ?e1
               | Some t \<Rightarrow>
                   if branch_id (target self) \<noteq> branch_id t
                   then unstage (''target (base) branch was changed from ''
                          @ py_repr (branch_name (target self)) @ '' to '' @ py_repr (branch_name t))
                          self ?e1
                   else ?e1)"
    let ?e3 = "(case w_message vals2 of
                 None \<Rightarrow> ?e2
               | Some m \<Rightarrow>
                   let mm = (case w_merge_method vals2 of None \<Rightarrow> merge_method self | Some x \<Rightarrow> x)
                   in if mm \<notin> {None, Some ''rebase-ff''} \<and> message self \<noteq> m
                      then unstage ''merge message updated'' self ?e2 else ?e2)"
    have 1: "map pr_id (pull_requests ?e1) = map pr_id (pull_requests e)"
      by (simp add: comp_def)
    have 2: "map pr_id (pull_requests ?e2) = map pr_id (pull_requests e)"
      using 1 by (simp add: unstage_pull_requests split: option.splits)
    have 3: "map pr_id (pull_requests ?e3) = map pr_id (pull_requests e)"
      using 2 by (simp add: unstage_pull_requests Let_def split: option.splits)
    have unf: "pr_write uid vals self e = (case write_closed vals2 self ?e3 of
          Inl err \<Rightarrow> Some (Inl err)
        | Inr (vals3, e4) \<Rightarrow>
            let e5 = update_pr (pr_id self) (assign vals3) e4 in
            (case w_head vals3 of
               None \<Rightarrow> Some (Inr e5)
             | Some newhead \<Rightarrow>
                 if newhead = [] then Some (Inr e5)
                 else pr_validate
                        (case find (\<lambda>c. cr_sha c = newhead) (commit_rows e5) of
                           None \<Rightarrow> [] | Some c \<Rightarrow> cr_statuses c)
                        (pr_id self) e5))"
      by (simp only: pr_write_def Let_def vals1_def vals2_def assms simp_thms if_True)
    show ?thesis
      using run 3 unfolding unf by (rule that [rotated])
  qed
  have mm2: "w_merge_method vals2 = Some None"
    by (simp add: vals2_def vals1_def)
  from run3 obtain vals3 e4 where wc: "write_closed vals2 self e3 = Inr (vals3, e4)"
    by (cases "write_closed vals2 self e3") auto
  have mm3: "w_merge_method vals3 = Some None"
    using write_closed_merge_method [OF wc] mm2 by simp
  have ids4: "map pr_id (pull_requests e4) = map pr_id (pull_requests e)"
    using write_closed_ids [OF wc] e3 by simp
  let ?e5 = "update_pr (pr_id self) (assign vals3) e4"
  have ids5: "map pr_id (pull_requests ?e5) = map pr_id (pull_requests e)"
    using ids4 by (simp add: update_pr_def assign_def comp_def if_distrib cong: if_cong)
  have mm5: "\<forall>p\<in>set (pull_requests ?e5). pr_id p = pr_id self \<longrightarrow> merge_method p = None"
    by (auto simp: update_pr_def assign_def mm3)
  have fin: "map (\<lambda>p. (pr_id p, merge_method p)) (pull_requests e')
      = map (\<lambda>p. (pr_id p, merge_method p)) (pull_requests ?e5)"
    using run3 by (auto simp: wc Let_def split: option.splits if_splits dest: pr_validate_methods)
  have "map pr_id (pull_requests e') = map pr_id (pull_requests ?e5)"
    using arg_cong [OF fin, of "map fst"] by (simp add: comp_def)
  then show "map pr_id (pull_requests e') = map pr_id (pull_requests e)
      \<and> (\<forall>p\<in>set (pull_requests e'). pr_id p = pr_id self \<longrightarrow> merge_method p = None)"
  proof -
    assume a: "map pr_id (pull_requests e') = map pr_id (pull_requests ?e5)"
    have "\<forall>x\<in>set (map (\<lambda>p. (pr_id p, merge_method p)) (pull_requests ?e5)). fst x = pr_id self \<longrightarrow> snd x = None"
      using mm5 by auto
    then have "\<forall>x\<in>set (map (\<lambda>p. (pr_id p, merge_method p)) (pull_requests e')). fst x = pr_id self \<longrightarrow> snd x = None"
      by (simp only: fin)
    then show ?thesis
      using a ids5 by auto
  qed
qed

theorem write_squash_clears_merge_method_witness:
  "w_squash (no_pr_vals\<lparr>w_squash := Some True, w_merge_method := Some (Some ''merge'')\<rparr>) = Some True
   \<and> pr_write 5 (no_pr_vals\<lparr>w_squash := Some True, w_merge_method := Some (Some ''merge'')\<rparr>)
        (ex_parent\<lparr>merge_method := Some ''rebase-merge''\<rparr>)
        (ex_env\<lparr>pull_requests := [ex_parent\<lparr>merge_method := Some ''rebase-merge''\<rparr>]\<rparr>)
       = Some (Inr (ex_env\<lparr>pull_requests := [ex_parent\<lparr>squash := True, merge_method := None\<rparr>]\<rparr>))
   \<and> map merge_method (pull_requests (ex_env\<lparr>pull_requests :=
         [ex_parent\<lparr>squash := True, merge_method := None\<rparr>]\<rparr>)) = [None]"
proof -
  let ?vals = "no_pr_vals\<lparr>w_squash := Some True, w_merge_method := Some (Some ''merge'')\<rparr>"
  let ?self = "ex_parent\<lparr>merge_method := Some ''rebase-merge''\<rparr>"
  let ?e = "ex_env\<lparr>pull_requests := [?self]\<rparr>"
  have h: "w_squash ?vals = Some True"
    by (simp add: no_pr_vals_def)
  have run: "pr_write 5 ?vals ?self ?e
      = Some (Inr (ex_env\<lparr>pull_requests := [ex_parent\<lparr>squash := True, merge_method := None\<rparr>]\<rparr>))"
    by (simp add: pr_write_def write_closed_def update_pr_def assign_def no_pr_vals_def Let_def
        ex_env_def ex_parent_def ex_pr_def)
  show ?thesis
    using h run write_squash_clears_merge_method [OF h, of 5 ?self ?e]
    by simp
qed


subsection \<open>The command interpreter\<close>







text \<open>The message of that rejection.\<close>

lemma rejection_message_example:
  "rejection_message ''rev'' 2 [''you can'' @ [CHR 0x27] @ ''t alone. Skill issue.'']
    = ''@rev you can'' @ [CHR 0x27] @ ''t alone. Skill issue.''
      @ ''\<newline>\<newline>For your own safety I'' @ [CHR 0x27] @ ''ve ignored everything in your comment.''"
  by (simp add: rejection_message_def removeprefix_def)


end
